theory Spec2Isabelle
  imports Complex_Main "HOL-Library.Sublist"
begin

section \<open>Python values\<close>

text \<open>
  The dashboard of \<^verbatim>\<open>src/app.py\<close> handles loosely typed provider payloads: the
  company-info mapping of yfinance and the JSON body of the news provider. Their values
  are embedded as \<open>pyval\<close>. A float is an exact rational or one of the three special
  values of IEEE arithmetic; binary rounding, overflow and the sign of zero are not
  modelled. A dict is an association list with string keys (JSON objects).
\<close>

datatype pyfloat = Fin rat | PosInf | NegInf | NaN

datatype pyval =
    PNone
  | PBool bool
  | PInt int
  | PFloat pyfloat
  | PStr string
  | PList "pyval list"
  | PDict "(string \<times> pyval) list"

text \<open>
  The exceptions of the model are all instances of Python's \<open>Exception\<close>, the class
  the handlers of the program name; the first three are raised by the embedded
  operations themselves, \<open>External\<close> (class name and message) stands for whatever a
  library call raises.
\<close>

datatype exn =
    AttributeError string
  | TypeError string
  | ValueError string
  | External string string

text \<open>\<open>str(e)\<close>, as the f-string of the ticker boundary prints it.\<close>

fun exn_str :: "exn \<Rightarrow> string" where
  "exn_str (AttributeError m) = m"
| "exn_str (TypeError m) = m"
| "exn_str (ValueError m) = m"
| "exn_str (External c m) = m"

text \<open>Python truthiness: what \<open>if v\<close>, \<open>not v\<close> and \<open>v or w\<close> test.\<close>

fun truthy :: "pyval \<Rightarrow> bool" where
  "truthy PNone = False"
| "truthy (PBool b) = b"
| "truthy (PInt i) = (i \<noteq> 0)"
| "truthy (PFloat x) = (x \<noteq> Fin 0)"
| "truthy (PStr s) = (s \<noteq> [])"
| "truthy (PList xs) = (xs \<noteq> [])"
| "truthy (PDict kvs) = (kvs \<noteq> [])"

fun type_name :: "pyval \<Rightarrow> string" where
  "type_name PNone = ''NoneType''"
| "type_name (PBool b) = ''bool''"
| "type_name (PInt i) = ''int''"
| "type_name (PFloat x) = ''float''"
| "type_name (PStr s) = ''str''"
| "type_name (PList xs) = ''list''"
| "type_name (PDict kvs) = ''dict''"

definition quote :: string where
  "quote = [CHR 0x27]"

definition no_attribute :: "pyval \<Rightarrow> string \<Rightarrow> exn" where
  "no_attribute v a =
     AttributeError (quote @ type_name v @ quote @ '' object has no attribute '' @ quote @ a @ quote)"

text \<open>
  \<open>obj.get(key, default)\<close>: a dict answers with the stored value or the default; any
  other value has no attribute \<open>get\<close>.
\<close>

fun py_get :: "pyval \<Rightarrow> string \<Rightarrow> pyval \<Rightarrow> exn + pyval" where
  "py_get (PDict kvs) k d = Inr (case map_of kvs k of None \<Rightarrow> d | Some v \<Rightarrow> v)"
| "py_get v k d = Inl (no_attribute v ''get'')"

text \<open>\<open>for item in data\<close>: the elements of a list, the keys of a dict, the characters of
  a string; anything else is not iterable.\<close>

fun py_iter :: "pyval \<Rightarrow> exn + pyval list" where
  "py_iter (PList xs) = Inr xs"
| "py_iter (PDict kvs) = Inr (map (\<lambda>kv. PStr (fst kv)) kvs)"
| "py_iter (PStr s) = Inr (map (\<lambda>c. PStr [c]) s)"
| "py_iter v = Inl (TypeError (quote @ type_name v @ quote @ '' object is not iterable''))"

section \<open>Float arithmetic and number formatting\<close>

text \<open>
  The three operations of the daily-change computation, on numpy floats: division by
  zero yields an infinity or NaN (numpy warns, it does not raise).
\<close>

fun fsub :: "pyfloat \<Rightarrow> pyfloat \<Rightarrow> pyfloat" where
  "fsub (Fin a) (Fin b) = Fin (a - b)"
| "fsub NaN y = NaN"
| "fsub x NaN = NaN"
| "fsub PosInf PosInf = NaN"
| "fsub NegInf NegInf = NaN"
| "fsub PosInf y = PosInf"
| "fsub NegInf y = NegInf"
| "fsub (Fin a) PosInf = NegInf"
| "fsub (Fin a) NegInf = PosInf"

definition signed_inf :: "bool \<Rightarrow> pyfloat" where
  "signed_inf neg = (if neg then NegInf else PosInf)"

fun fdiv :: "pyfloat \<Rightarrow> pyfloat \<Rightarrow> pyfloat" where
  "fdiv (Fin a) (Fin b) =
     (if b = 0 then (if a = 0 then NaN else signed_inf (a < 0)) else Fin (a / b))"
| "fdiv NaN y = NaN"
| "fdiv x NaN = NaN"
| "fdiv (Fin a) y = Fin 0"
| "fdiv PosInf (Fin b) = signed_inf (b < 0)"
| "fdiv NegInf (Fin b) = signed_inf (\<not> b < 0)"
| "fdiv x y = NaN"

fun fmul :: "pyfloat \<Rightarrow> pyfloat \<Rightarrow> pyfloat" where
  "fmul (Fin a) (Fin b) = Fin (a * b)"
| "fmul NaN y = NaN"
| "fmul x NaN = NaN"
| "fmul (Fin a) PosInf = (if a = 0 then NaN else signed_inf (a < 0))"
| "fmul (Fin a) NegInf = (if a = 0 then NaN else signed_inf (\<not> a < 0))"
| "fmul PosInf (Fin b) = (if b = 0 then NaN else signed_inf (b < 0))"
| "fmul NegInf (Fin b) = (if b = 0 then NaN else signed_inf (\<not> b < 0))"
| "fmul PosInf PosInf = PosInf"
| "fmul NegInf NegInf = PosInf"
| "fmul x y = NegInf"

text \<open>Decimal digits of a natural number, and \<open>str\<close> of an int.\<close>

fun nat_digits :: "nat \<Rightarrow> string" where
  "nat_digits n =
     (if n < 10 then [''0123456789'' ! n]
      else nat_digits (n div 10) @ [''0123456789'' ! (n mod 10)])"

definition show_int :: "int \<Rightarrow> string" where
  "show_int i = (if i < 0 then ''-'' else '''') @ nat_digits (nat \<bar>i\<bar>)"

text \<open>The \<open>,\<close> option of a format specification: a comma before every group of three
  digits, counted from the right.\<close>

function group3 :: "string \<Rightarrow> string" where
  "group3 ds =
     (if length ds \<le> 3 then ds
      else group3 (take (length ds - 3) ds) @ '','' @ drop (length ds - 3) ds)"
  by pat_completeness auto
termination
  by (relation "measure length") auto

declare nat_digits.simps [simp del]
declare group3.simps [simp del]

text \<open>
  Fixed-point formatting \<open>format(x, ',.2f')\<close>, \<open>format(x, '.2f')\<close> and
  \<open>format(x, ',.0f')\<close>: the exact value is rounded to \<open>d\<close> decimals, ties to even
  (what Python prints for a float that holds the tie exactly), the sign is kept even
  when the rounded value is zero.
\<close>

definition round_half_even :: "rat \<Rightarrow> int" where
  "round_half_even x =
     (let f = \<lfloor>x\<rfloor>; r = x - of_int f
      in if r > 1 / 2 \<or> (r = 1 / 2 \<and> odd f) then f + 1 else f)"

definition zero_pad :: "nat \<Rightarrow> string \<Rightarrow> string" where
  "zero_pad d s = replicate (d - length s) CHR ''0'' @ s"

definition fmt_fixed :: "bool \<Rightarrow> nat \<Rightarrow> rat \<Rightarrow> string" where
  "fmt_fixed comma d x =
     (let n = nat (round_half_even (\<bar>x\<bar> * 10 ^ d));
          ds = nat_digits (n div 10 ^ d)
      in (if x < 0 then ''-'' else '''')
         @ (if comma then group3 ds else ds)
         @ (if d = 0 then '''' else ''.'' @ zero_pad d (nat_digits (n mod 10 ^ d))))"

fun fmt_float :: "bool \<Rightarrow> nat \<Rightarrow> pyfloat \<Rightarrow> string" where
  "fmt_float comma d (Fin x) = fmt_fixed comma d x"
| "fmt_float comma d PosInf = ''inf''"
| "fmt_float comma d NegInf = ''-inf''"
| "fmt_float comma d NaN = ''nan''"

text \<open>
  \<open>format(v, spec)\<close> with a presentation type \<open>f\<close>, as an f-string applies it: numbers
  (a bool is an int) are formatted, a string rejects the format code, the other types
  reject any non-empty specification. An int is formatted from its exact value (Python
  converts it to a float first, which rounds beyond 53 bits; not modelled).
\<close>

fun py_format_f :: "bool \<Rightarrow> nat \<Rightarrow> pyval \<Rightarrow> exn + string" where
  "py_format_f comma d (PInt i) = Inr (fmt_fixed comma d (of_int i))"
| "py_format_f comma d (PBool b) = Inr (fmt_fixed comma d (if b then 1 else 0))"
| "py_format_f comma d (PFloat x) = Inr (fmt_float comma d x)"
| "py_format_f comma d (PStr s) =
     Inl (ValueError (''Unknown format code '' @ quote @ ''f'' @ quote
                       @ '' for object of type '' @ quote @ ''str'' @ quote))"
| "py_format_f comma d v =
     Inl (TypeError (''unsupported format string passed to '' @ type_name v @ ''.__format__''))"

text \<open>
  \<open>str(v)\<close>, as an f-string without a format specification applies it. The shortest
  round-trip text of a float and the \<open>repr\<close> of a container are left to the
  parameter \<open>repr\<close>.
\<close>

fun py_str :: "(pyval \<Rightarrow> string) \<Rightarrow> pyval \<Rightarrow> string" where
  "py_str repr PNone = ''None''"
| "py_str repr (PBool b) = (if b then ''True'' else ''False'')"
| "py_str repr (PInt i) = show_int i"
| "py_str repr (PStr s) = s"
| "py_str repr v = repr v"

section \<open>The world outside the program\<close>

text \<open>
  One row of a price history: the index (a timestamp) and the \<open>Close\<close> column, the
  only parts of the frame the program reads. \<open>None\<close> of \<open>dataframe option\<close> is
  Python's \<open>None\<close>, \<open>Some []\<close> the empty frame.
\<close>

record bar =
  stamp :: int
  close :: pyfloat

type_synonym dataframe = "bar list"

record http_request =
  url :: string
  params :: "(string \<times> string) list"
  timeout :: nat

text \<open>A response: its status code and what \<open>response.json()\<close> gives or raises.\<close>

record http_response =
  status_code :: int
  json_body :: "exn + pyval"

text \<open>The logo download: its status code and what \<open>Image.open\<close> makes of the content.\<close>

record logo_response =
  logo_status :: int
  logo_image :: "exn + string"

text \<open>
  Every library the program calls is a field of \<open>env\<close>: the two yfinance lookups, the
  HTTP client, the clock-dependent ISO dates of the news query, the two chart toolkits
  step by step (\<open>None\<close>: the step returns, \<open>Some e\<close>: it raises \<open>e\<close>), the
  date text of a news timestamp and \<open>repr\<close>. The Streamlit calls that only display
  (\<open>st.markdown\<close>, \<open>st.metric\<close>, \<open>st.warning\<close>, ...) are taken to return.
\<close>

record env =
  yf_history :: "string \<Rightarrow> string \<Rightarrow> exn + dataframe option"
  yf_get_info :: "string \<Rightarrow> exn + pyval"
  requests_get :: "http_request \<Rightarrow> exn + http_response"
  logo_get :: "pyval \<Rightarrow> exn + logo_response"
  iso_today :: string
  iso_30_days_ago :: string
  import_matplotlib :: "exn option"
  mpl_figure :: "exn option"
  mpl_imshow :: "string \<Rightarrow> dataframe \<Rightarrow> exn option"
  mpl_plot :: "dataframe \<Rightarrow> string \<Rightarrow> exn option"
  mpl_axes :: "string \<Rightarrow> string \<Rightarrow> exn option"
  mpl_glow :: "exn option"
  sys_platform :: string
  plotly_figure :: "dataframe \<Rightarrow> string \<Rightarrow> exn option"
  news_date :: "pyval \<Rightarrow> exn + string"
  repr :: "pyval \<Rightarrow> string"

text \<open>The sidebar inputs a rendering cycle reads.\<close>

record config =
  period :: string
  finnhub_api :: string
  bg_image :: "string option"

text \<open>
  What the presentation layer receives, in order. \<open>Html\<close> is \<open>safe_markdown\<close>
  (\<open>st.markdown\<close> with \<open>unsafe_allow_html\<close>); a chart records the toolkit that drew
  it; the column a widget stands in is not recorded.
\<close>

datatype event =
    Warning string
  | ErrorMsg string
  | Info string
  | Html string
  | Markdown string
  | Caption string
  | Image string
  | Subheader string
  | Metric string string "string option"
  | Expander string string
  | PyplotChart string string bool bool
  | PlotlyChart string

section \<open>Effects: output and exceptions\<close>

text \<open>
  A statement emits events and then either returns a value or raises: what it emitted
  before raising stays on the page.
\<close>

type_synonym 'a io = "event list \<times> (exn + 'a)"

definition ret :: "'a \<Rightarrow> 'a io" where
  "ret x = ([], Inr x)"

definition emit :: "event \<Rightarrow> unit io" where
  "emit e = ([e], Inr ())"

definition lift :: "exn + 'a \<Rightarrow> 'a io" where
  "lift r = ([], r)"

definition step :: "exn option \<Rightarrow> unit io" where
  "step r = (case r of None \<Rightarrow> ([], Inr ()) | Some e \<Rightarrow> ([], Inl e))"

definition bind :: "'a io \<Rightarrow> ('a \<Rightarrow> 'b io) \<Rightarrow> 'b io" where
  "bind m f =
     (case m of
        (es, Inl e) \<Rightarrow> (es, Inl e)
      | (es, Inr x) \<Rightarrow> (case f x of (es', r) \<Rightarrow> (es @ es', r)))"

definition seq :: "unit io \<Rightarrow> 'b io \<Rightarrow> 'b io" where
  "seq m k = bind m (\<lambda>_. k)"

text \<open>\<open>try: m  except Exception: pass\<close>\<close>

definition try_pass :: "unit io \<Rightarrow> unit io" where
  "try_pass m = (case m of (es, Inl e) \<Rightarrow> (es, Inr ()) | (es, Inr x) \<Rightarrow> (es, Inr x))"

section \<open>Cached lookups\<close>

text \<open>
  The bodies of the three functions under \<open>st.cache_data\<close> (lines 154 to 183): what a
  cache miss runs. The decorator itself is library code; on a hit it hands back the
  stored return value and runs nothing of the body.
\<close>

definition get_stock_data :: "env \<Rightarrow> string \<Rightarrow> string \<Rightarrow> exn + dataframe option" where
  "get_stock_data env ticker per =
     (case yf_history env ticker per of
        Inr h \<Rightarrow> Inr h
      | Inl e \<Rightarrow> Inr (Some []))"

definition get_info_cached :: "env \<Rightarrow> string \<Rightarrow> exn + pyval" where
  "get_info_cached env ticker =
     (case yf_get_info env ticker of
        Inr i \<Rightarrow> Inr i
      | Inl e \<Rightarrow> Inr (PDict []))"

text \<open>
  The list comprehension of line 180,
  \<open>[item for item in data if item.get("headline") and item.get("url")]\<close>:
  \<open>and\<close> evaluates its right operand only when the left one is truthy.
\<close>

fun keep_items :: "pyval list \<Rightarrow> exn + pyval list" where
  "keep_items [] = Inr []"
| "keep_items (item # rest) =
     (case py_get item ''headline'' PNone of
        Inl e \<Rightarrow> Inl e
      | Inr h \<Rightarrow>
          if truthy h then
            (case py_get item ''url'' PNone of
               Inl e \<Rightarrow> Inl e
             | Inr u \<Rightarrow>
                 (case keep_items rest of
                    Inl e \<Rightarrow> Inl e
                  | Inr ks \<Rightarrow> Inr (if truthy u then item # ks else ks)))
          else keep_items rest)"

definition news_filter :: "pyval \<Rightarrow> exn + pyval list" where
  "news_filter data = (case py_iter data of Inl e \<Rightarrow> Inl e | Inr items \<Rightarrow> keep_items items)"

definition news_request :: "env \<Rightarrow> string \<Rightarrow> string \<Rightarrow> http_request" where
  "news_request env symbol api_key =
     \<lparr>url = ''https://finnhub.io/api/v1/company-news'',
      params = [(''symbol'', symbol), (''from'', iso_30_days_ago env),
                (''to'', iso_today env), (''token'', api_key)],
      timeout = 10\<rparr>"

text \<open>
  \<open>get_company_news\<close> returns, beside its result, the HTTP requests it issued, so that
  "no network call" is a statement about the function.
\<close>

definition get_company_news ::
  "env \<Rightarrow> string \<Rightarrow> string \<Rightarrow> http_request list \<times> (exn + pyval list)" where
  "get_company_news env symbol api_key =
     (if api_key = [] then ([], Inr [])
      else
        ([news_request env symbol api_key],
         (case requests_get env (news_request env symbol api_key) of
            Inl e \<Rightarrow> Inr []
          | Inr response \<Rightarrow>
              if status_code response = 200 then
                (case json_body response of
                   Inl e \<Rightarrow> Inr []
                 | Inr data \<Rightarrow>
                     (case news_filter data of
                        Inl e \<Rightarrow> Inr []
                      | Inr items \<Rightarrow> Inr items))
              else Inr [])))"

section \<open>Rendering helpers\<close>

text \<open>
  String methods of the header: \<open>s.replace(old, "")\<close> for a non-empty \<open>old\<close>
  (occurrences are removed from left to right, without overlap), \<open>s.split("/")[0]\<close>
  and \<open>s.strip()\<close> over the ASCII white space.
\<close>

function str_remove :: "string \<Rightarrow> string \<Rightarrow> string" where
  "str_remove old [] = []"
| "str_remove old (c # cs) =
     (if old \<noteq> [] \<and> prefix old (c # cs)
      then str_remove old (drop (length old) (c # cs))
      else c # str_remove old cs)"
  by pat_completeness auto
termination
  by (relation "measure (\<lambda>(old, s). length s)") auto

definition before_slash :: "string \<Rightarrow> string" where
  "before_slash s = takeWhile (\<lambda>c. c \<noteq> CHR ''/'') s"

definition is_space :: "char \<Rightarrow> bool" where
  "is_space c =
     (c = CHR '' '' \<or> c = CHR 0x09 \<or> c = CHR 0x0A \<or> c = CHR 0x0B \<or> c = CHR 0x0C
      \<or> c = CHR 0x0D \<or> c = CHR 0x1C \<or> c = CHR 0x1D \<or> c = CHR 0x1E \<or> c = CHR 0x1F)"

definition strip :: "string \<Rightarrow> string" where
  "strip s = rev (dropWhile is_space (rev (dropWhile is_space s)))"

text \<open>Lines 191 to 195: the logo URL, from \<open>logo_url\<close> or from the website's domain.\<close>

definition website_domain :: "pyval \<Rightarrow> exn + string" where
  "website_domain w =
     (case w of
        PStr s \<Rightarrow> Inr (before_slash (str_remove ''http://'' (str_remove ''https://'' s)))
      | _ \<Rightarrow> Inl (no_attribute w ''replace''))"

definition find_logo_url :: "pyval \<Rightarrow> exn + pyval" where
  "find_logo_url info =
     (case py_get info ''logo_url'' PNone of
        Inl e \<Rightarrow> Inl e
      | Inr logo_url \<Rightarrow>
          if \<not> truthy logo_url then
            (case py_get info ''website'' (PStr []) of
               Inl e \<Rightarrow> Inl e
             | Inr w \<Rightarrow>
                 (case website_domain w of
                    Inl e \<Rightarrow> Inl e
                  | Inr domain \<Rightarrow>
                      if domain \<noteq> [] then Inr (PStr (''https://logo.clearbit.com/'' @ domain))
                      else Inr logo_url))
          else Inr logo_url)"

text \<open>Lines 199 to 207: the logo column; every failure of the download is ignored.\<close>

definition logo_column :: "env \<Rightarrow> pyval \<Rightarrow> unit io" where
  "logo_column env logo_url =
     (if truthy logo_url then
        try_pass
          (bind (lift (logo_get env logo_url)) (\<lambda>r.
             if logo_status r = 200
             then bind (lift (logo_image r)) (\<lambda>img. emit (Image img))
             else ret ()))
      else ret ())"

definition render_company_header :: "env \<Rightarrow> pyval \<Rightarrow> string \<Rightarrow> unit io" where
  "render_company_header env info ticker =
     bind (lift (find_logo_url info)) (\<lambda>logo_url.
     seq (logo_column env logo_url)
    (bind (lift (py_get info ''shortName'' (PStr ticker))) (\<lambda>name.
     seq (emit (Markdown (''### '' @ py_str (repr env) name)))
    (bind (lift (py_get info ''sector'' (PStr ''N/A''))) (\<lambda>sector.
     bind (lift (py_get info ''industry'' (PStr ''N/A''))) (\<lambda>industry.
     emit (Caption (py_str (repr env) sector @ '' | '' @ py_str (repr env) industry))))))))"

text \<open>Lines 243 to 246: the date format of the axis follows the platform.\<close>

definition date_format :: "string \<Rightarrow> string" where
  "date_format platform = (if prefix ''win'' platform then ''%m/%d/%y'' else ''%-m/%-d/%y'')"

text \<open>
  Lines 212 to 260. Only the two imports stand under the \<open>try\<close> that returns
  \<open>False\<close>; the background image and the glow are optional (their failures are
  passed over); every other toolkit call may raise out of the function. The chart
  reaches the page with \<open>st.pyplot\<close>, the last statement.
\<close>

definition render_matplotlib_cyberpunk_chart ::
  "env \<Rightarrow> dataframe \<Rightarrow> string \<Rightarrow> string option \<Rightarrow> bool io" where
  "render_matplotlib_cyberpunk_chart env hist ticker bg =
     (case import_matplotlib env of
        Some e \<Rightarrow> ret False
      | None \<Rightarrow>
          seq (step (mpl_figure env))
         (bind (ret (case bg of None \<Rightarrow> False | Some img \<Rightarrow> mpl_imshow env img hist = None))
            (\<lambda>with_image.
          seq (step (mpl_plot env hist ticker))
         (seq (step (mpl_axes env ticker (date_format (sys_platform env))))
         (bind (ret (mpl_glow env = None)) (\<lambda>with_glow.
          seq (emit (PyplotChart ticker (date_format (sys_platform env)) with_image with_glow))
              (ret True)))))))"

definition plotly_css :: string where
  "plotly_css =
     ''<style> .plotly-graph-div, .js-plotly-plot svg, .js-plotly-plot .svg-container ''
     @ ''{ background: transparent !important; } </style>''"

text \<open>Lines 262 to 280.\<close>

definition render_plotly_fallback :: "env \<Rightarrow> dataframe \<Rightarrow> string \<Rightarrow> unit io" where
  "render_plotly_fallback env hist ticker =
     seq (step (plotly_figure env hist ticker))
    (seq (emit (Html plotly_css))
         (emit (PlotlyChart ticker)))"

text \<open>Lines 298 to 300: the renderer chain as the ticker loop runs it.\<close>

definition render_chart :: "env \<Rightarrow> dataframe \<Rightarrow> string \<Rightarrow> string option \<Rightarrow> unit io" where
  "render_chart env hist ticker bg =
     bind (render_matplotlib_cyberpunk_chart env hist ticker bg) (\<lambda>rendered.
       if \<not> rendered then render_plotly_fallback env hist ticker else ret ())"

section \<open>The metrics row\<close>

text \<open>Line 305: \<open>info.get("currentPrice") or info.get("regularMarketPrice")\<close>.\<close>

definition resolve_price :: "pyval \<Rightarrow> exn + pyval" where
  "resolve_price info =
     (case py_get info ''currentPrice'' PNone of
        Inl e \<Rightarrow> Inl e
      | Inr p \<Rightarrow> if truthy p then Inr p else py_get info ''regularMarketPrice'' PNone)"

text \<open>Lines 310, 312 and 314: the three texts computed from the info mapping.\<close>

definition price_text :: "pyval \<Rightarrow> exn + string" where
  "price_text price =
     (if truthy price
      then (case py_format_f True 2 price of Inl e \<Rightarrow> Inl e | Inr s \<Rightarrow> Inr (''$'' @ s))
      else Inr ''N/A'')"

definition cap_text :: "pyval \<Rightarrow> exn + string" where
  "cap_text cap =
     (if truthy cap
      then (case py_format_f True 0 cap of Inl e \<Rightarrow> Inl e | Inr s \<Rightarrow> Inr (''$'' @ s))
      else Inr ''N/A'')"

definition range_text :: "(pyval \<Rightarrow> string) \<Rightarrow> pyval \<Rightarrow> pyval \<Rightarrow> string" where
  "range_text rp high low = ''$'' @ py_str rp high @ '' / $'' @ py_str rp low"

text \<open>
  Lines 316 to 320: \<open>iloc[-1]\<close> and \<open>iloc[-2]\<close> are read only under the guard
  \<open>len(hist_5d) >= 2\<close>.
\<close>

definition daily_change :: "dataframe option \<Rightarrow> unit io" where
  "daily_change hist_5d =
     (case hist_5d of
        None \<Rightarrow> ret ()
      | Some bars \<Rightarrow>
          if length bars \<ge> 2 then
            (let last_close = close (bars ! (length bars - 1));
                 prev_close = close (bars ! (length bars - 2));
                 change = fsub last_close prev_close;
                 pct = fmul (fdiv change prev_close) (Fin 100)
             in emit (Metric ''Daily Change'' (''$'' @ fmt_float False 2 change)
                        (Some (fmt_float False 2 pct @ ''%''))))
          else ret ())"

definition change_column :: "env \<Rightarrow> string \<Rightarrow> unit io" where
  "change_column env ticker = bind (lift (get_stock_data env ticker ''5d'')) daily_change"

text \<open>Lines 303 to 320: the four values are read first, then the four columns are filled.\<close>

definition metrics_row :: "env \<Rightarrow> pyval \<Rightarrow> string \<Rightarrow> unit io" where
  "metrics_row env info ticker =
     bind (lift (resolve_price info)) (\<lambda>price.
     bind (lift (py_get info ''marketCap'' PNone)) (\<lambda>cap.
     bind (lift (py_get info ''fiftyTwoWeekHigh'' PNone)) (\<lambda>high.
     bind (lift (py_get info ''fiftyTwoWeekLow'' PNone)) (\<lambda>low.
     seq (bind (lift (price_text price)) (\<lambda>s. emit (Metric ''Current Price'' s None)))
    (seq (bind (lift (cap_text cap)) (\<lambda>s. emit (Metric ''Market Cap'' s None)))
    (seq (emit (Metric ''52w High / Low'' (range_text (repr env) high low) None))
         (change_column env ticker)))))))"

section \<open>Description and news\<close>

text \<open>
  Lines 323 to 328. \<open>summary.strip()\<close> is evaluated only for a truthy summary, and
  only a string has the method.
\<close>

definition no_description :: string where
  "no_description = ''No company description available.''"

definition expander_label :: string where
  "expander_label = [CHR 0xF0, CHR 0x9F, CHR 0x93, CHR 0x98] @ '' Company Info (click to expand)''"

definition company_info :: "pyval \<Rightarrow> unit io" where
  "company_info info =
     bind (lift (py_get info ''longBusinessSummary'' (PStr no_description))) (\<lambda>summary.
       if truthy summary then
         (case summary of
            PStr s \<Rightarrow>
              if strip s \<noteq> [] then emit (Expander expander_label s)
              else emit (Info no_description)
          | _ \<Rightarrow> lift (Inl (no_attribute summary ''strip'')))
       else emit (Info no_description))"

text \<open>Lines 341 to 344: one news entry. The date text may raise (a timestamp that is
  not a number, or out of range).\<close>

definition card_html :: "string \<Rightarrow> string \<Rightarrow> string \<Rightarrow> string \<Rightarrow> string" where
  "card_html u h src t_str =
     ''<div class='' @ quote @ ''news-card'' @ quote @ ''><a href='' @ quote @ u @ quote
     @ '' target='' @ quote @ ''_blank'' @ quote @ ''><b>'' @ h @ ''</b></a><br><small>''
     @ src @ '' | '' @ t_str @ ''</small></div>''"

definition news_card :: "env \<Rightarrow> pyval \<Rightarrow> unit io" where
  "news_card env article =
     bind (lift (py_get article ''datetime'' (PInt 0))) (\<lambda>ts.
     bind (lift (news_date env ts)) (\<lambda>t_str.
     bind (lift (py_get article ''url'' PNone)) (\<lambda>u.
     bind (lift (py_get article ''headline'' PNone)) (\<lambda>h.
     bind (lift (py_get article ''source'' (PStr ''Unknown''))) (\<lambda>src.
     emit (Html (card_html (py_str (repr env) u) (py_str (repr env) h)
                   (py_str (repr env) src) t_str)))))))"

text \<open>The loop of line 340 over the slice \<open>news[:5]\<close>.\<close>

fun news_cards :: "env \<Rightarrow> pyval list \<Rightarrow> unit io" where
  "news_cards env [] = ret ()"
| "news_cards env (article # rest) = seq (news_card env article) (news_cards env rest)"

definition news_heading :: "string \<Rightarrow> string" where
  "news_heading ticker =
     [CHR 0xF0, CHR 0x9F, CHR 0x93, CHR 0xB0] @ '' '' @ ticker @ '' Recent News''"

definition news_rule :: string where
  "news_rule =
     ''<hr style='' @ quote @ ''border: 1px solid #00f5ff; opacity: 0.3;'' @ quote @ ''>''"

text \<open>Lines 333 to 349.\<close>

definition news_section :: "env \<Rightarrow> config \<Rightarrow> string \<Rightarrow> unit io" where
  "news_section env cfg ticker =
     seq (emit (Subheader (news_heading ticker)))
    (bind (if finnhub_api cfg = []
           then seq (emit (Info ''Enter your Finnhub API key in the sidebar to enable company news.''))
                    (ret [])
           else lift (snd (get_company_news env ticker (finnhub_api cfg)))) (\<lambda>news.
     seq (if news \<noteq> [] then news_cards env (take 5 news)
          else if finnhub_api cfg \<noteq> [] then emit (Info ''No recent news available.'')
          else ret ())
         (emit (Html news_rule))))"

section \<open>The ticker loop\<close>

text \<open>
  Lines 287 to 349, the body of the \<open>try\<close>: \<open>continue\<close> after the warning ends the
  ticker's processing without an exception.
\<close>

definition process_ticker :: "env \<Rightarrow> config \<Rightarrow> string \<Rightarrow> unit io" where
  "process_ticker env cfg ticker =
     bind (lift (get_info_cached env ticker)) (\<lambda>info.
     bind (lift (get_stock_data env ticker (period cfg))) (\<lambda>hist.
       case hist of
         None \<Rightarrow> emit (Warning (''No data available for '' @ ticker))
       | Some bars \<Rightarrow>
           if bars = [] then emit (Warning (''No data available for '' @ ticker))
           else
             seq (render_company_header env info ticker)
            (seq (render_chart env bars ticker (bg_image cfg))
            (seq (metrics_row env info ticker)
            (seq (company_info info)
            (seq (emit (Markdown ''---''))
                 (news_section env cfg ticker)))))))"

text \<open>
  Lines 285 to 352: the \<open>for\<close> loop with its \<open>try\<close> \<open>except Exception as e\<close>,
  which reports with \<open>st.error\<close> and goes on with the next ticker.
\<close>

definition ticker_error :: "string \<Rightarrow> exn \<Rightarrow> event" where
  "ticker_error ticker e = ErrorMsg (''Could not load info for '' @ ticker @ '': '' @ exn_str e)"

fun ticker_loop :: "env \<Rightarrow> config \<Rightarrow> string list \<Rightarrow> event list" where
  "ticker_loop env cfg [] = []"
| "ticker_loop env cfg (ticker # rest) =
     (case process_ticker env cfg ticker of
        (evs, Inl e) \<Rightarrow> evs @ [ticker_error ticker e]
      | (evs, Inr u) \<Rightarrow> evs)
     @ ticker_loop env cfg rest"

section \<open>The refresh scheduler\<close>

text \<open>
  Lines 144 to 149. The session state holds \<open>last_refresh\<close> or not; \<open>now\<close> is what
  \<open>time.time()\<close> returns at the comparison and \<open>now'\<close> what it returns at the
  assignment that follows it. The result is the new state and whether
  \<open>st.experimental_rerun()\<close> was called.
\<close>

definition refresh_check :: "rat option \<Rightarrow> int \<Rightarrow> rat \<Rightarrow> rat \<Rightarrow> rat option \<times> bool" where
  "refresh_check last_refresh refresh_rate now now' =
     (case last_refresh of
        None \<Rightarrow> (Some now, False)
      | Some t \<Rightarrow>
          if now - t > of_int refresh_rate then (Some now', True)
          else (Some t, False))"

text \<open>
  One run of the script from line 142 on: a rerun request ends the run before any
  ticker is processed (\<open>None\<close>), otherwise the ticker sections are produced. The
  styling, the sidebar and the footer are left out.
\<close>

definition run_app :: "env \<Rightarrow> config \<Rightarrow> string list \<Rightarrow> int \<Rightarrow> rat option \<Rightarrow> rat \<Rightarrow> rat
    \<Rightarrow> rat option \<times> event list option" where
  "run_app env cfg tickers refresh_rate last_refresh now now' =
     (case refresh_check last_refresh refresh_rate now now' of
        (st, True) \<Rightarrow> (st, None)
      | (st, False) \<Rightarrow> (st, Some (ticker_loop env cfg tickers)))"

section \<open>A concrete world for the examples\<close>

text \<open>
  The examples below run the model in one fixed world, where the behaviour of the
  providers depends on the ticker: \<open>DOWN\<close> has no reachable market data, \<open>NODATA\<close> an
  empty history, \<open>NOINFO\<close> a history but no reachable company info, \<open>BAD\<close> an
  info payload that is not a mapping, \<open>PLOTFAIL\<close> a history
  the primary toolkit fails to plot; every other ticker has two closes, 100 and 105.
\<close>

definition two_bars :: dataframe where
  "two_bars = [\<lparr>stamp = 1, close = Fin 100\<rparr>, \<lparr>stamp = 2, close = Fin 105\<rparr>]"

definition demo_info :: pyval where
  "demo_info =
     PDict [(''shortName'', PStr ''Demo Corp''), (''currentPrice'', PInt 5),
            (''marketCap'', PInt 1234), (''fiftyTwoWeekHigh'', PInt 9),
            (''fiftyTwoWeekLow'', PInt 3), (''longBusinessSummary'', PStr ''Makes demos.'')]"

definition demo_news :: pyval where
  "demo_news =
     PList [PDict [(''headline'', PStr ''''), (''url'', PStr ''https://x'')],
            PDict [(''headline'', PStr ''A''), (''url'', PStr ''https://x'')]]"

definition net_down :: exn where
  "net_down = External ''ConnectionError'' ''network unreachable''"

definition demo_env :: env where
  "demo_env =
     \<lparr>yf_history = (\<lambda>ticker per.
         if ticker = ''DOWN'' then Inl net_down
         else if ticker = ''NODATA'' then Inr (Some [])
         else Inr (Some two_bars)),
      yf_get_info = (\<lambda>ticker.
         if ticker = ''DOWN'' \<or> ticker = ''NOINFO'' then Inl net_down
         else if ticker = ''BAD'' then Inr PNone
         else Inr demo_info),
      requests_get = (\<lambda>r.
         if map_of (params r) ''symbol'' = Some ''DOWN'' then Inl net_down
         else Inr \<lparr>status_code = 200, json_body = Inr demo_news\<rparr>),
      logo_get = (\<lambda>u. Inl net_down),
      iso_today = ''2025-01-31'',
      iso_30_days_ago = ''2025-01-01'',
      import_matplotlib = None,
      mpl_figure = None,
      mpl_imshow = (\<lambda>img hist. None),
      mpl_plot = (\<lambda>hist ticker.
         if ticker = ''PLOTFAIL'' then Some (External ''RuntimeError'' ''cannot plot'') else None),
      mpl_axes = (\<lambda>ticker fmt. None),
      mpl_glow = None,
      sys_platform = ''linux'',
      plotly_figure = (\<lambda>hist ticker. None),
      news_date = (\<lambda>ts. Inr ''Jan 01, 1970''),
      repr = (\<lambda>v. ''?'')\<rparr>"

definition demo_cfg :: config where
  "demo_cfg = \<lparr>period = ''1mo'', finnhub_api = '''', bg_image = None\<rparr>"

section \<open>Vocabulary of the properties\<close>

text \<open>Which events are charts, which are metrics.\<close>

fun is_chart :: "event \<Rightarrow> bool" where
  "is_chart (PyplotChart t f b g) = True"
| "is_chart (PlotlyChart t) = True"
| "is_chart ev = False"

fun is_metric :: "event \<Rightarrow> bool" where
  "is_metric (Metric l v d) = True"
| "is_metric ev = False"

text \<open>A field of a mapping, \<open>None\<close> when the key is absent: \<open>info.get(key)\<close>.\<close>

definition field :: "(string \<times> pyval) list \<Rightarrow> string \<Rightarrow> pyval" where
  "field kvs k = (case map_of kvs k of None \<Rightarrow> PNone | Some v \<Rightarrow> v)"

text \<open>
  A news item is a mapping; it is valid when its headline and its URL are both present
  and truthy, which for a string means not empty.
\<close>

fun is_dict :: "pyval \<Rightarrow> bool" where
  "is_dict (PDict kvs) = True"
| "is_dict v = False"

fun valid_item :: "pyval \<Rightarrow> bool" where
  "valid_item (PDict kvs) = (truthy (field kvs ''headline'') \<and> truthy (field kvs ''url''))"
| "valid_item v = False"

text \<open>
  The ways the news client can fail: the request raises, the status is not 200, the
  body is not JSON, or the JSON is not a sequence of mappings.
\<close>

definition news_client_fails :: "env \<Rightarrow> http_request \<Rightarrow> bool" where
  "news_client_fails env req =
     (case requests_get env req of
        Inl e \<Rightarrow> True
      | Inr response \<Rightarrow>
          if status_code response = 200 then
            (case json_body response of
               Inl e \<Rightarrow> True
             | Inr data \<Rightarrow> (case news_filter data of Inl e \<Rightarrow> True | Inr items \<Rightarrow> False))
          else True)"

section \<open>Basic facts\<close>

lemmas io_defs = ret_def emit_def lift_def step_def bind_def seq_def try_pass_def

lemma ticker_loop_append:
  "ticker_loop env cfg (xs @ ys) = ticker_loop env cfg xs @ ticker_loop env cfg ys"
  by (induction xs) simp_all

lemma get_stock_data_returns: "\<exists>h. get_stock_data env ticker per = Inr h"
  by (simp add: get_stock_data_def split: sum.split)

lemma get_info_cached_returns: "\<exists>i. get_info_cached env ticker = Inr i"
  by (simp add: get_info_cached_def split: sum.split)

lemma get_company_news_returns: "\<exists>n. snd (get_company_news env symbol key) = Inr n"
  by (simp add: get_company_news_def split: sum.split)

section \<open>Failure isolation in the ticker loop\<close>

text \<open>
  C1. Whatever step of a ticker's processing raises, and whatever that ticker had
  already put on the page (\<open>evs\<close>), the loop catches the exception at that ticker,
  emits the error message that names the ticker, and processes the tickers after it
  exactly as it processes them on their own; the tickers before it are not affected
  either.
\<close>

theorem ticker_failure_isolated:
  assumes "process_ticker env cfg ticker = (evs, Inl e)"
  shows "ticker_loop env cfg (before @ ticker # after) =
           ticker_loop env cfg before
           @ evs @ [ErrorMsg (''Could not load info for '' @ ticker @ '': '' @ exn_str e)]
           @ ticker_loop env cfg after"
  using assms by (simp add: ticker_loop_append ticker_error_def)

text \<open>
  In the example world the info payload of \<open>BAD\<close> is \<open>None\<close>, so the company header
  raises an \<open>AttributeError\<close>; the ticker \<open>OK\<close> after it still gets its chart.
\<close>

theorem ticker_failure_isolated_witness:
  "process_ticker demo_env demo_cfg ''BAD'' = ([], Inl (no_attribute PNone ''get''))
   \<and> ticker_loop demo_env demo_cfg [''NODATA'', ''BAD'', ''OK''] =
       [Warning ''No data available for NODATA'',
        ErrorMsg (''Could not load info for BAD: '' @ quote @ ''NoneType'' @ quote
                  @ '' object has no attribute '' @ quote @ ''get'' @ quote)]
       @ ticker_loop demo_env demo_cfg [''OK'']
   \<and> list_ex is_chart (ticker_loop demo_env demo_cfg [''OK''])"
proof -
  have bad: "process_ticker demo_env demo_cfg ''BAD'' = ([], Inl (no_attribute PNone ''get''))"
    by code_simp
  have first: "ticker_loop demo_env demo_cfg [''NODATA''] = [Warning ''No data available for NODATA'']"
    by code_simp
  have chart: "list_ex is_chart (ticker_loop demo_env demo_cfg [''OK''])"
    by code_simp
  show ?thesis
    using bad first chart ticker_failure_isolated [OF bad, of "[''NODATA'']" "[''OK'']"]
    by (simp add: no_attribute_def)
qed

section \<open>The cached lookups absorb every client failure\<close>

text \<open>
  C2. Each of the three lookups returns a value, never an exception, for every ticker,
  period and key and whatever the clients do. When the client fails, the value is the
  empty one of its kind: the empty frame for the history, the empty mapping for the
  info, the empty list for the news. With an empty API key the news lookup returns the
  empty list and issues no HTTP request.
\<close>

theorem cached_lookups_never_raise:
  "(\<exists>h. get_stock_data env ticker per = Inr h)
   \<and> (\<exists>i. get_info_cached env ticker = Inr i)
   \<and> (\<exists>n. snd (get_company_news env ticker key) = Inr n)
   \<and> (yf_history env ticker per = Inl e \<longrightarrow> get_stock_data env ticker per = Inr (Some []))
   \<and> (yf_get_info env ticker = Inl e \<longrightarrow> get_info_cached env ticker = Inr (PDict []))
   \<and> (news_client_fails env (news_request env ticker key)
        \<longrightarrow> snd (get_company_news env ticker key) = Inr [])
   \<and> get_company_news env ticker [] = ([], Inr [])"
  by (simp add: get_stock_data_def get_info_cached_def get_company_news_def
      news_client_fails_def split: sum.split)

theorem cached_lookups_never_raise_witness:
  "yf_history demo_env ''DOWN'' ''1mo'' = Inl net_down
   \<and> get_stock_data demo_env ''DOWN'' ''1mo'' = Inr (Some [])
   \<and> yf_get_info demo_env ''DOWN'' = Inl net_down
   \<and> get_info_cached demo_env ''DOWN'' = Inr (PDict [])
   \<and> news_client_fails demo_env (news_request demo_env ''DOWN'' ''key'')
   \<and> snd (get_company_news demo_env ''DOWN'' ''key'') = Inr []
   \<and> get_company_news demo_env ''DOWN'' [] = ([], Inr [])"
proof -
  have h: "yf_history demo_env ''DOWN'' ''1mo'' = Inl net_down"
    by (simp add: demo_env_def)
  have i: "yf_get_info demo_env ''DOWN'' = Inl net_down"
    by (simp add: demo_env_def)
  have n: "news_client_fails demo_env (news_request demo_env ''DOWN'' ''key'')"
    by (simp add: news_client_fails_def news_request_def demo_env_def)
  show ?thesis
    using h i n
      cached_lookups_never_raise [of demo_env "''DOWN''" "''1mo''" "''key''" net_down]
    by simp
qed

section \<open>A ticker without price history\<close>

text \<open>
  C3. When the history fetched for a ticker is \<open>None\<close> or empty, the ticker's whole
  output is the notice "No data available for" with its symbol: no chart and no
  metric is emitted, no exception is raised, and the loop goes on with the next
  ticker.
\<close>

theorem empty_history_skips_ticker:
  assumes "get_stock_data env ticker (period cfg) = Inr h" and "h = None \<or> h = Some []"
  shows "process_ticker env cfg ticker = ([Warning (''No data available for '' @ ticker)], Inr ())
         \<and> list_all (\<lambda>ev. \<not> is_chart ev \<and> \<not> is_metric ev) (fst (process_ticker env cfg ticker))
         \<and> ticker_loop env cfg (ticker # rest) =
             Warning (''No data available for '' @ ticker) # ticker_loop env cfg rest"
proof -
  obtain i where i: "get_info_cached env ticker = Inr i"
    using get_info_cached_returns by blast
  have p: "process_ticker env cfg ticker = ([Warning (''No data available for '' @ ticker)], Inr ())"
    using assms i by (auto simp add: process_ticker_def io_defs)
  then show ?thesis by simp
qed

theorem empty_history_skips_ticker_witness:
  "get_stock_data demo_env ''NODATA'' (period demo_cfg) = Inr (Some [])
   \<and> process_ticker demo_env demo_cfg ''NODATA'' = ([Warning ''No data available for NODATA''], Inr ())
   \<and> ticker_loop demo_env demo_cfg [''NODATA'', ''DOWN''] =
       [Warning ''No data available for NODATA'', Warning ''No data available for DOWN'']"
proof -
  have h: "get_stock_data demo_env ''NODATA'' (period demo_cfg) = Inr (Some [])"
    by (simp add: get_stock_data_def demo_env_def)
  have d: "ticker_loop demo_env demo_cfg [''DOWN''] = [Warning ''No data available for DOWN'']"
    by code_simp
  show ?thesis
    using h d empty_history_skips_ticker [OF h, of "[''DOWN'']"] by simp
qed

section \<open>The renderer chain\<close>

lemma primary_unavailable:
  "import_matplotlib env = Some e \<Longrightarrow>
     render_matplotlib_cyberpunk_chart env hist ticker bg = ([], Inr False)"
  by (simp add: render_matplotlib_cyberpunk_chart_def io_defs)

lemma primary_result:
  "import_matplotlib env = None \<Longrightarrow>
   render_matplotlib_cyberpunk_chart env hist ticker bg =
     (case mpl_figure env of Some x \<Rightarrow> ([], Inl x) | None \<Rightarrow>
      (case mpl_plot env hist ticker of Some x \<Rightarrow> ([], Inl x) | None \<Rightarrow>
       (case mpl_axes env ticker (date_format (sys_platform env)) of Some x \<Rightarrow> ([], Inl x) | None \<Rightarrow>
          ([PyplotChart ticker (date_format (sys_platform env))
              (case bg of None \<Rightarrow> False | Some img \<Rightarrow> mpl_imshow env img hist = None)
              (mpl_glow env = None)], Inr True))))"
  by (simp add: render_matplotlib_cyberpunk_chart_def io_defs split: option.split)

lemma fallback_result:
  "render_plotly_fallback env hist ticker =
     (case plotly_figure env hist ticker of Some x \<Rightarrow> ([], Inl x)
      | None \<Rightarrow> ([Html plotly_css, PlotlyChart ticker], Inr ()))"
  by (simp add: render_plotly_fallback_def io_defs split: option.split)

text \<open>
  C4, as stated, fails on the code. The chain falls back when the primary toolkit is
  unavailable, but an exception of a plotting step is not handled in it: for the
  ticker \<open>PLOTFAIL\<close> of the example world the toolkit is imported, \<open>ax.plot\<close> raises,
  no chart at all is drawn and the exception is what the caller receives.
\<close>

theorem primary_failure_counterexample:
  "render_chart demo_env two_bars ''PLOTFAIL'' None = ([], Inl (External ''RuntimeError'' ''cannot plot''))"
  by code_simp

text \<open>
  C4, amended. The primary strategy is attempted first. When its toolkit cannot be
  imported, the primary draws nothing and the chain is the fallback renderer, which
  draws the plotly chart unless it raises itself. When the toolkit is imported and
  its plotting steps return, the matplotlib chart is the only output and the fallback
  is not run. When the toolkit is imported and a plotting step raises, the chain draws
  nothing, does not try the fallback, and passes the exception to its caller. In
  every case at most one chart is drawn.
\<close>

theorem renderer_chain_cases:
  "(import_matplotlib env = Some e \<longrightarrow>
      render_matplotlib_cyberpunk_chart env hist ticker bg = ([], Inr False)
      \<and> render_chart env hist ticker bg = render_plotly_fallback env hist ticker)
   \<and> (import_matplotlib env = Some e \<and> plotly_figure env hist ticker = None \<longrightarrow>
      render_chart env hist ticker bg = ([Html plotly_css, PlotlyChart ticker], Inr ()))
   \<and> (import_matplotlib env = None \<and> mpl_figure env = None \<and> mpl_plot env hist ticker = None
       \<and> mpl_axes env ticker (date_format (sys_platform env)) = None \<longrightarrow>
      (\<exists>with_image with_glow. render_chart env hist ticker bg =
         ([PyplotChart ticker (date_format (sys_platform env)) with_image with_glow], Inr ())))
   \<and> (import_matplotlib env = None
       \<and> render_matplotlib_cyberpunk_chart env hist ticker bg = (evs, Inl x) \<longrightarrow>
      render_chart env hist ticker bg = ([], Inl x))
   \<and> length (filter is_chart (fst (render_chart env hist ticker bg))) \<le> 1"
proof (cases "import_matplotlib env")
  case None
  then show ?thesis
    by (auto simp add: render_chart_def primary_result io_defs split: option.splits)
next
  case (Some a)
  then show ?thesis
    by (auto simp add: render_chart_def primary_unavailable fallback_result io_defs split: option.splits)
qed

text \<open>
  The three cases in the example world: the toolkit missing, the toolkit present, and
  the toolkit present with a failing plot.
\<close>

theorem renderer_chain_cases_witness:
  "import_matplotlib (demo_env\<lparr>import_matplotlib := Some (External ''ImportError'' ''no mpl'')\<rparr>)
     = Some (External ''ImportError'' ''no mpl'')
   \<and> render_chart (demo_env\<lparr>import_matplotlib := Some (External ''ImportError'' ''no mpl'')\<rparr>)
        two_bars ''OK'' None = ([Html plotly_css, PlotlyChart ''OK''], Inr ())
   \<and> render_chart demo_env two_bars ''OK'' None = ([PyplotChart ''OK'' ''%-m/%-d/%y'' False True], Inr ())
   \<and> render_matplotlib_cyberpunk_chart demo_env two_bars ''PLOTFAIL'' None
        = ([], Inl (External ''RuntimeError'' ''cannot plot''))
   \<and> render_chart demo_env two_bars ''PLOTFAIL'' None = ([], Inl (External ''RuntimeError'' ''cannot plot''))"
proof -
  let ?e = "demo_env\<lparr>import_matplotlib := Some (External ''ImportError'' ''no mpl'')\<rparr>"
  have a: "import_matplotlib ?e = Some (External ''ImportError'' ''no mpl'')
           \<and> plotly_figure ?e two_bars ''OK'' = None"
    by (simp add: demo_env_def)
  have b: "import_matplotlib demo_env = None \<and> mpl_figure demo_env = None
           \<and> mpl_plot demo_env two_bars ''OK'' = None
           \<and> mpl_axes demo_env ''OK'' (date_format (sys_platform demo_env)) = None"
    by (simp add: demo_env_def)
  have c: "render_matplotlib_cyberpunk_chart demo_env two_bars ''PLOTFAIL'' None
             = ([], Inl (External ''RuntimeError'' ''cannot plot''))"
    by code_simp
  have d: "render_chart demo_env two_bars ''OK'' None = ([PyplotChart ''OK'' ''%-m/%-d/%y'' False True], Inr ())"
    by code_simp
  have f: "render_chart ?e two_bars ''OK'' None = ([Html plotly_css, PlotlyChart ''OK''], Inr ())"
    using a renderer_chain_cases
      [of ?e "External ''ImportError'' ''no mpl''" two_bars "''OK''" None "[]" net_down]
    by blast
  have g: "render_chart demo_env two_bars ''PLOTFAIL'' None
             = ([], Inl (External ''RuntimeError'' ''cannot plot''))"
    using b c renderer_chain_cases
      [of demo_env net_down two_bars "''PLOTFAIL''" None "[]" "External ''RuntimeError'' ''cannot plot''"]
    by blast
  from a c d f g show ?thesis by blast
qed

section \<open>The daily-change metric\<close>

lemma fmt_five: "fmt_fixed False 2 5 = ''5.00''"
  by code_simp

lemma last_but_one:
  assumes "2 \<le> length xs"
  shows "xs ! (length xs - 2) = last (butlast xs)"
proof -
  from assms obtain ys y where xs: "xs = ys @ [y]"
    by (cases xs rule: rev_cases) auto
  with assms obtain zs z where ys: "ys = zs @ [z]"
    by (cases ys rule: rev_cases) auto
  have "butlast xs = zs @ [z]" by (simp add: xs ys butlast_append)
  then show ?thesis by (simp add: xs ys nth_append)
qed

lemma last_index: "2 \<le> length xs \<Longrightarrow> xs ! (length xs - 1) = last xs"
  by (cases xs) (simp_all add: last_conv_nth)

lemma daily_change_emitted:
  assumes "2 \<le> length bars"
  shows "daily_change (Some bars) =
    ([Metric ''Daily Change''
        (''$'' @ fmt_float False 2 (fsub (close (last bars)) (close (last (butlast bars)))))
        (Some (fmt_float False 2
                 (fmul (fdiv (fsub (close (last bars)) (close (last (butlast bars))))
                             (close (last (butlast bars)))) (Fin 100)) @ ''%''))],
     Inr ())"
  using assms last_but_one [OF assms] last_index [OF assms]
  by (simp add: daily_change_def emit_def Let_def)

lemma daily_change_absent:
  "length bars < 2 \<Longrightarrow> daily_change (Some bars) = ([], Inr ())"
  "daily_change None = ([], Inr ())"
  by (simp_all add: daily_change_def ret_def)

text \<open>
  C5. The change column emits the metric "Daily Change" exactly when the 5-day series
  holds at least two points. Its value is the last close minus the close before it
  and its delta that change divided by the close before it, times 100, both printed
  with two decimals; on finite closes with a non-zero divisor these are the exact
  differences and quotients. For the closes 100 and 105 the metric reads \<open>$5.00\<close>
  and \<open>5.00%\<close>. With fewer than two points, or with no frame at all, the column
  emits nothing. The column stands in the metrics row of a ticker, which is reached
  when the header, the chart and the two metrics before it have not raised.
\<close>

theorem daily_change_metric:
  "(fst (daily_change h) \<noteq> [] \<longleftrightarrow> (\<exists>bars. h = Some bars \<and> 2 \<le> length bars))
   \<and> (2 \<le> length bars \<longrightarrow>
        daily_change (Some bars) =
          ([Metric ''Daily Change''
              (''$'' @ fmt_float False 2 (fsub (close (last bars)) (close (last (butlast bars)))))
              (Some (fmt_float False 2
                       (fmul (fdiv (fsub (close (last bars)) (close (last (butlast bars))))
                                   (close (last (butlast bars)))) (Fin 100)) @ ''%''))],
           Inr ()))
   \<and> (b \<noteq> 0 \<longrightarrow>
        fsub (Fin a) (Fin b) = Fin (a - b)
        \<and> fmul (fdiv (fsub (Fin a) (Fin b)) (Fin b)) (Fin 100) = Fin ((a - b) / b * 100))
   \<and> daily_change (Some [\<lparr>stamp = s, close = Fin 100\<rparr>, \<lparr>stamp = s', close = Fin 105\<rparr>]) =
        ([Metric ''Daily Change'' ''$5.00'' (Some ''5.00%'')], Inr ())
   \<and> (length bars < 2 \<longrightarrow> daily_change (Some bars) = ([], Inr ()))
   \<and> daily_change None = ([], Inr ())
   \<and> (get_stock_data env ticker ''5d'' = Inr h \<longrightarrow> change_column env ticker = daily_change h)"
proof -
  have iff: "fst (daily_change h) \<noteq> [] \<longleftrightarrow> (\<exists>bars. h = Some bars \<and> 2 \<le> length bars)"
  proof (cases h)
    case None
    then show ?thesis by (simp add: daily_change_absent)
  next
    case (Some bs)
    then show ?thesis
      by (cases "2 \<le> length bs") (simp_all add: daily_change_emitted daily_change_absent)
  qed
  have ex: "daily_change (Some [\<lparr>stamp = s, close = Fin 100\<rparr>, \<lparr>stamp = s', close = Fin 105\<rparr>]) =
        ([Metric ''Daily Change'' ''$5.00'' (Some ''5.00%'')], Inr ())"
    by (simp add: daily_change_emitted fmt_five)
  have col: "get_stock_data env ticker ''5d'' = Inr h \<longrightarrow> change_column env ticker = daily_change h"
    by (cases "daily_change h") (simp add: change_column_def io_defs split: sum.split)
  show ?thesis
    using iff ex col by (simp add: daily_change_emitted daily_change_absent)
qed

text \<open>The two closes of the example world, and a series of a single point.\<close>

theorem daily_change_metric_witness:
  "2 \<le> length two_bars
   \<and> daily_change (Some two_bars) = ([Metric ''Daily Change'' ''$5.00'' (Some ''5.00%'')], Inr ())
   \<and> length [\<lparr>stamp = 1, close = Fin 100\<rparr>] < 2
   \<and> daily_change (Some [\<lparr>stamp = 1, close = Fin 100\<rparr>]) = ([], Inr ())
   \<and> get_stock_data demo_env ''OK'' ''5d'' = Inr (Some two_bars)
   \<and> change_column demo_env ''OK'' = ([Metric ''Daily Change'' ''$5.00'' (Some ''5.00%'')], Inr ())"
proof -
  have g: "get_stock_data demo_env ''OK'' ''5d'' = Inr (Some two_bars)"
    by (simp add: get_stock_data_def demo_env_def)
  have l: "2 \<le> length two_bars" by (simp add: two_bars_def)
  have v: "daily_change (Some two_bars) = ([Metric ''Daily Change'' ''$5.00'' (Some ''5.00%'')], Inr ())"
    using daily_change_metric [of "Some two_bars" two_bars 1 1 1 2 demo_env "''OK''"]
    by (simp add: two_bars_def fmt_five)
  have c: "change_column demo_env ''OK'' = daily_change (Some two_bars)"
    using g daily_change_metric [of "Some two_bars" two_bars 1 1 1 2 demo_env "''OK''"]
    by blast
  have a: "daily_change (Some [\<lparr>stamp = 1, close = Fin 100\<rparr>]) = ([], Inr ())"
    using daily_change_metric [of "Some two_bars" "[\<lparr>stamp = 1, close = Fin 100\<rparr>]" 1 1 1 2 demo_env "''OK''"]
    by simp
  from g l v c a show ?thesis by simp
qed

section \<open>The current-price metric\<close>

text \<open>The metrics row on an info payload that is a mapping.\<close>

lemma resolve_price_dict:
  "resolve_price (PDict kvs) =
     Inr (if truthy (field kvs ''currentPrice'') then field kvs ''currentPrice''
          else field kvs ''regularMarketPrice'')"
  by (simp add: resolve_price_def field_def)

lemma metrics_row_dict:
  "metrics_row env (PDict kvs) ticker =
     (case price_text (if truthy (field kvs ''currentPrice'') then field kvs ''currentPrice''
                       else field kvs ''regularMarketPrice'') of
        Inl e \<Rightarrow> ([], Inl e)
      | Inr s \<Rightarrow>
          (case cap_text (field kvs ''marketCap'') of
             Inl e \<Rightarrow> ([Metric ''Current Price'' s None], Inl e)
           | Inr c \<Rightarrow>
               ([Metric ''Current Price'' s None, Metric ''Market Cap'' c None,
                 Metric ''52w High / Low''
                   (range_text (repr env) (field kvs ''fiftyTwoWeekHigh'')
                      (field kvs ''fiftyTwoWeekLow'')) None]
                @ fst (change_column env ticker),
                snd (change_column env ticker))))"
  by (cases "change_column env ticker")
    (simp add: metrics_row_def resolve_price_dict io_defs field_def split: sum.split)

lemma price_text_falsy: "\<not> truthy p \<Longrightarrow> price_text p = Inr ''N/A''"
  by (simp add: price_text_def)

lemma cap_text_falsy: "\<not> truthy c \<Longrightarrow> cap_text c = Inr ''N/A''"
  by (simp add: cap_text_def)

lemma fmt_zero: "fmt_fixed True 2 0 = ''0.00''"
  by code_simp

lemma fmt_seven: "fmt_fixed True 2 7 = ''7.00''"
  by code_simp

text \<open>
  C6, as stated, fails on the code: line 305 joins the two fields with \<open>or\<close> and line
  310 guards the format with \<open>if price\<close>, so a \<open>currentPrice\<close> that is present but
  zero is not displayed. With \<open>regularMarketPrice\<close> 7 beside it the metric shows
  \<open>$7.00\<close>, and alone it shows \<open>N/A\<close>, where the present value would read \<open>$0.00\<close>.
\<close>

theorem current_price_present_counterexample:
  "map_of [(''currentPrice'', PInt 0), (''regularMarketPrice'', PInt 7)] ''currentPrice'' = Some (PInt 0)
   \<and> py_format_f True 2 (PInt 0) = Inr ''0.00''
   \<and> hd (fst (metrics_row demo_env
                 (PDict [(''currentPrice'', PInt 0), (''regularMarketPrice'', PInt 7)]) ''OK''))
       = Metric ''Current Price'' ''$7.00'' None
   \<and> hd (fst (metrics_row demo_env (PDict [(''currentPrice'', PInt 0)]) ''OK''))
       = Metric ''Current Price'' ''N/A'' None"
  by (simp add: metrics_row_dict field_def price_text_def cap_text_def fmt_zero fmt_seven)

text \<open>
  C6, amended. For every info mapping the price resolved is \<open>currentPrice\<close> when that
  field is present and truthy, else \<open>regularMarketPrice\<close>; the first metric of the
  row shows the text of the resolved price, which for a non-zero number is \<open>$\<close> and
  the value with thousands separators and two decimals, and is \<open>N/A\<close> when neither
  field holds a truthy value. In particular, when both fields are missing the metric
  is emitted as \<open>N/A\<close>, without an exception.
\<close>

theorem current_price_truthy_fallback:
  "resolve_price (PDict kvs) =
     Inr (if truthy (field kvs ''currentPrice'') then field kvs ''currentPrice''
          else field kvs ''regularMarketPrice'')
   \<and> (resolve_price (PDict kvs) = Inr p \<and> price_text p = Inr s \<longrightarrow>
        (\<exists>rest r. metrics_row env (PDict kvs) ticker = (Metric ''Current Price'' s None # rest, r)))
   \<and> (i \<noteq> 0 \<longrightarrow> price_text (PInt i) = Inr (''$'' @ fmt_fixed True 2 (of_int i)))
   \<and> (x \<noteq> 0 \<longrightarrow> price_text (PFloat (Fin x)) = Inr (''$'' @ fmt_fixed True 2 x))
   \<and> (\<not> truthy (field kvs ''currentPrice'') \<and> \<not> truthy (field kvs ''regularMarketPrice'') \<longrightarrow>
        (\<exists>rest r. metrics_row env (PDict kvs) ticker = (Metric ''Current Price'' ''N/A'' None # rest, r)))
   \<and> (map_of kvs ''currentPrice'' = None \<and> map_of kvs ''regularMarketPrice'' = None \<longrightarrow>
        (\<exists>rest r. metrics_row env (PDict kvs) ticker = (Metric ''Current Price'' ''N/A'' None # rest, r)))"
proof -
  have shown: "resolve_price (PDict kvs) = Inr p \<and> price_text p = Inr s \<longrightarrow>
        (\<exists>rest r. metrics_row env (PDict kvs) ticker = (Metric ''Current Price'' s None # rest, r))"
    by (auto simp add: resolve_price_dict metrics_row_dict split: sum.split)
  have na: "\<not> truthy (field kvs ''currentPrice'') \<and> \<not> truthy (field kvs ''regularMarketPrice'') \<longrightarrow>
        (\<exists>rest r. metrics_row env (PDict kvs) ticker = (Metric ''Current Price'' ''N/A'' None # rest, r))"
    by (auto simp add: metrics_row_dict price_text_falsy split: sum.split)
  have missing: "map_of kvs ''currentPrice'' = None \<and> map_of kvs ''regularMarketPrice'' = None \<longrightarrow>
        \<not> truthy (field kvs ''currentPrice'') \<and> \<not> truthy (field kvs ''regularMarketPrice'')"
    by (simp add: field_def)
  have fmt: "(i \<noteq> 0 \<longrightarrow> price_text (PInt i) = Inr (''$'' @ fmt_fixed True 2 (of_int i)))
     \<and> (x \<noteq> 0 \<longrightarrow> price_text (PFloat (Fin x)) = Inr (''$'' @ fmt_fixed True 2 x))"
    by (simp add: price_text_def)
  from shown na missing fmt show ?thesis
    using resolve_price_dict [of kvs] by blast
qed

text \<open>The info of the example world (price 5) and a mapping with neither field.\<close>

theorem current_price_truthy_fallback_witness:
  "resolve_price demo_info = Inr (PInt 5)
   \<and> price_text (PInt 5) = Inr ''$5.00''
   \<and> (\<exists>rest r. metrics_row demo_env demo_info ''OK'' = (Metric ''Current Price'' ''$5.00'' None # rest, r))
   \<and> map_of [(''marketCap'', PInt 1)] ''currentPrice'' = None
   \<and> map_of [(''marketCap'', PInt 1)] ''regularMarketPrice'' = None
   \<and> (\<exists>rest r. metrics_row demo_env (PDict [(''marketCap'', PInt 1)]) ''OK''
         = (Metric ''Current Price'' ''N/A'' None # rest, r))"
proof -
  let ?kvs = "[(''shortName'', PStr ''Demo Corp''), (''currentPrice'', PInt 5),
            (''marketCap'', PInt 1234), (''fiftyTwoWeekHigh'', PInt 9),
            (''fiftyTwoWeekLow'', PInt 3), (''longBusinessSummary'', PStr ''Makes demos.'')]"
  have five: "fmt_fixed True 2 5 = ''5.00''" by code_simp
  have r: "resolve_price (PDict ?kvs) = Inr (PInt 5)"
    by (simp add: resolve_price_def)
  have t: "price_text (PInt 5) = Inr ''$5.00''"
    by (simp add: price_text_def five)
  have m: "\<exists>rest r. metrics_row demo_env (PDict ?kvs) ''OK'' = (Metric ''Current Price'' ''$5.00'' None # rest, r)"
    using r t current_price_truthy_fallback [of ?kvs "PInt 5" "''$5.00''" demo_env "''OK''" 1 1]
    by blast
  have a: "map_of [(''marketCap'', PInt 1)] ''currentPrice'' = None
           \<and> map_of [(''marketCap'', PInt 1)] ''regularMarketPrice'' = None"
    by simp
  have n: "\<exists>rest r. metrics_row demo_env (PDict [(''marketCap'', PInt 1)]) ''OK''
         = (Metric ''Current Price'' ''N/A'' None # rest, r)"
    using a current_price_truthy_fallback [of "[(''marketCap'', PInt 1)]" "PInt 5" "''$5.00''" demo_env "''OK''" 1 1]
    by blast
  from r t m a n show ?thesis by (simp add: demo_info_def)
qed

section \<open>Market cap and the 52-week range\<close>

text \<open>
  C7 does not hold of the code for the 52-week range. Lines 310 and 312 show \<open>N/A\<close>
  for a missing price or market cap, but line 314 formats \<open>high\<close> and \<open>low\<close> with no
  guard. When the info lookup fails and the history does not (the ticker \<open>NOINFO\<close>
  of the example world), the info is the empty mapping, both fields are \<open>None\<close>, and
  the metric reads \<open>$None / $None\<close> beside the \<open>N/A\<close> of its two neighbours.
\<close>

theorem range_metric_absent_fields:
  "get_info_cached demo_env ''NOINFO'' = Inr (PDict [])
   \<and> metrics_row demo_env (PDict []) ''NOINFO'' =
       ([Metric ''Current Price'' ''N/A'' None, Metric ''Market Cap'' ''N/A'' None,
         Metric ''52w High / Low'' ''$None / $None'' None,
         Metric ''Daily Change'' ''$5.00'' (Some ''5.00%'')], Inr ())
   \<and> list_ex (\<lambda>ev. ev = Metric ''52w High / Low'' ''$None / $None'' None)
         (ticker_loop demo_env demo_cfg [''NOINFO''])"
  by code_simp

section \<open>Falsy values in the metrics row\<close>

text \<open>
  C10. The fallback from \<open>currentPrice\<close> to \<open>regularMarketPrice\<close> and the two display
  guards test truthiness: a \<open>currentPrice\<close> that is not truthy gives way to
  \<open>regularMarketPrice\<close>; a resolved price that is not truthy (zero, the empty string,
  \<open>None\<close>, \<open>False\<close>) is shown as \<open>N/A\<close>, and so is such a market cap, where the
  format of the value zero would have read \<open>0.00\<close>.
\<close>

theorem falsy_values_display_na:
  "(\<not> truthy (field kvs ''currentPrice'') \<longrightarrow>
      resolve_price (PDict kvs) = Inr (field kvs ''regularMarketPrice''))
   \<and> (\<not> truthy p \<longrightarrow> price_text p = Inr ''N/A'')
   \<and> (\<not> truthy c \<longrightarrow> cap_text c = Inr ''N/A'')
   \<and> (resolve_price (PDict kvs) = Inr p \<and> \<not> truthy p \<longrightarrow>
        (\<exists>rest r. metrics_row env (PDict kvs) ticker =
           (Metric ''Current Price'' ''N/A'' None # rest, r)))
   \<and> (resolve_price (PDict kvs) = Inr p \<and> price_text p = Inr s
       \<and> \<not> truthy (field kvs ''marketCap'') \<longrightarrow>
        (\<exists>rest r. metrics_row env (PDict kvs) ticker =
           (Metric ''Current Price'' s None # Metric ''Market Cap'' ''N/A'' None # rest, r)))
   \<and> \<not> truthy (PInt 0) \<and> \<not> truthy (PFloat (Fin 0)) \<and> \<not> truthy (PStr [])
   \<and> \<not> truthy PNone \<and> \<not> truthy (PBool False)
   \<and> py_format_f True 2 (PInt 0) = Inr ''0.00''"
proof -
  have price: "resolve_price (PDict kvs) = Inr p \<and> \<not> truthy p \<longrightarrow>
        (\<exists>rest r. metrics_row env (PDict kvs) ticker =
           (Metric ''Current Price'' ''N/A'' None # rest, r))"
    by (auto simp add: resolve_price_dict metrics_row_dict price_text_falsy split: sum.split)
  have cap: "resolve_price (PDict kvs) = Inr p \<and> price_text p = Inr s
       \<and> \<not> truthy (field kvs ''marketCap'') \<longrightarrow>
        (\<exists>rest r. metrics_row env (PDict kvs) ticker =
           (Metric ''Current Price'' s None # Metric ''Market Cap'' ''N/A'' None # rest, r))"
    by (auto simp add: resolve_price_dict metrics_row_dict cap_text_falsy split: sum.split)
  have fallback: "\<not> truthy (field kvs ''currentPrice'') \<longrightarrow>
      resolve_price (PDict kvs) = Inr (field kvs ''regularMarketPrice'')"
    by (simp add: resolve_price_dict)
  from price cap fallback show ?thesis
    by (simp add: price_text_falsy cap_text_falsy fmt_zero)
qed

text \<open>A mapping whose price is 0 and whose market cap is the empty string.\<close>

theorem falsy_values_display_na_witness:
  "\<not> truthy (field [(''currentPrice'', PInt 0), (''marketCap'', PStr [])] ''currentPrice'')
   \<and> resolve_price (PDict [(''currentPrice'', PInt 0), (''marketCap'', PStr [])]) = Inr PNone
   \<and> price_text PNone = Inr ''N/A''
   \<and> \<not> truthy (field [(''currentPrice'', PInt 0), (''marketCap'', PStr [])] ''marketCap'')
   \<and> (\<exists>rest r. metrics_row demo_env (PDict [(''currentPrice'', PInt 0), (''marketCap'', PStr [])]) ''OK'' =
           (Metric ''Current Price'' ''N/A'' None # Metric ''Market Cap'' ''N/A'' None # rest, r))"
proof -
  let ?kvs = "[(''currentPrice'', PInt 0), (''marketCap'', PStr [])]"
  have a: "\<not> truthy (field ?kvs ''currentPrice'')" by (simp add: field_def)
  have b: "\<not> truthy (field ?kvs ''marketCap'')" by (simp add: field_def)
  have rmp: "field ?kvs ''regularMarketPrice'' = PNone" by (simp add: field_def)
  note inst = falsy_values_display_na
    [where kvs = ?kvs and p = PNone and c = PNone and s = "''N/A''" and env = demo_env
       and ticker = "''OK''"]
  have r: "resolve_price (PDict ?kvs) = Inr PNone"
    using a rmp inst by simp
  have t: "price_text PNone = Inr ''N/A''"
    using inst by simp
  have m: "\<exists>rest r. metrics_row demo_env (PDict ?kvs) ''OK'' =
           (Metric ''Current Price'' ''N/A'' None # Metric ''Market Cap'' ''N/A'' None # rest, r)"
    using r t b inst by blast
  from a b r t m show ?thesis by blast
qed

section \<open>News filtering and the cap of five\<close>

lemma keep_items_dicts:
  "list_all is_dict items \<Longrightarrow> keep_items items = Inr (filter valid_item items)"
proof (induction items)
  case Nil
  then show ?case by simp
next
  case (Cons item rest)
  then obtain kvs where "item = PDict kvs"
    by (cases item) simp_all
  with Cons show ?case
    by (simp add: field_def)
qed

lemma news_card_at_most_one: "length (fst (news_card env article)) \<le> 1"
  by (simp add: news_card_def io_defs split: sum.split prod.split)

lemma news_cards_length: "length (fst (news_cards env xs)) \<le> length xs"
proof (induction xs)
  case Nil
  then show ?case by (simp add: ret_def)
next
  case (Cons a xs)
  have one: "length (fst (news_card env a)) \<le> 1" by (rule news_card_at_most_one)
  obtain es r where c: "news_card env a = (es, r)" by (cases "news_card env a")
  obtain es' r' where cs: "news_cards env xs = (es', r')" by (cases "news_cards env xs")
  from one c Cons cs show ?case
    by (cases r) (simp_all add: seq_def bind_def)
qed

lemma news_cards_prefix:
  "prefix (fst (news_cards env xs)) (concat (map (\<lambda>a. fst (news_card env a)) xs))"
proof (induction xs)
  case Nil
  then show ?case by (simp add: ret_def)
next
  case (Cons a xs)
  obtain es r where c: "news_card env a = (es, r)" by (cases "news_card env a")
  obtain es' r' where cs: "news_cards env xs = (es', r')" by (cases "news_cards env xs")
  from c cs Cons show ?case
    by (cases r) (simp_all add: seq_def bind_def)
qed

lemma news_cards_all:
  "list_all (\<lambda>a. snd (news_card env a) = Inr ()) xs \<Longrightarrow>
     news_cards env xs = (concat (map (\<lambda>a. fst (news_card env a)) xs), Inr ())"
proof (induction xs)
  case Nil
  then show ?case by (simp add: ret_def)
next
  case (Cons a xs)
  obtain es where c: "news_card env a = (es, Inr ())"
    using Cons.prems by (cases "news_card env a") simp
  from c Cons show ?case
    by (simp add: seq_def bind_def)
qed

lemma news_section_with_news:
  assumes "finnhub_api cfg \<noteq> []"
    and "snd (get_company_news env ticker (finnhub_api cfg)) = Inr news"
    and "news \<noteq> []"
  shows "fst (news_section env cfg ticker) =
           Subheader (news_heading ticker) # fst (news_cards env (take 5 news))
           @ (if snd (news_cards env (take 5 news)) = Inr () then [Html news_rule] else [])"
proof -
  obtain es r where c: "news_cards env (take 5 news) = (es, r)"
    by (cases "news_cards env (take 5 news)")
  from assms c show ?thesis
    by (cases r) (simp_all add: news_section_def io_defs)
qed

text \<open>
  C8. Of a fetched list of news items (mappings), exactly the items whose headline and
  URL are both present and truthy are kept, in the provider's order: for string
  fields, an item is kept if and only if neither is empty, and an item that lacks one
  of the two is dropped; the item with the empty headline is dropped and the item with
  headline \<open>A\<close> is kept. The news section emits entries for the first five kept
  items only, in their order: at most five entries whatever the number fetched, all
  five of them when the date of every timestamp can be formatted, and otherwise the
  entries before the first timestamp that cannot.
\<close>

theorem news_filter_and_cap:
  "(list_all is_dict items \<longrightarrow> keep_items items = Inr (filter valid_item items))
   \<and> (key \<noteq> [] \<and> requests_get env (news_request env symbol key) = Inr response
       \<and> status_code response = 200 \<and> json_body response = Inr (PList items)
       \<and> list_all is_dict items \<longrightarrow>
        snd (get_company_news env symbol key) = Inr (filter valid_item items))
   \<and> (map_of kvs ''headline'' = Some (PStr h) \<and> map_of kvs ''url'' = Some (PStr u) \<longrightarrow>
        valid_item (PDict kvs) = (h \<noteq> [] \<and> u \<noteq> []))
   \<and> (map_of kvs ''headline'' = None \<or> map_of kvs ''url'' = None \<longrightarrow> \<not> valid_item (PDict kvs))
   \<and> \<not> valid_item (PDict [(''headline'', PStr []), (''url'', PStr ''https://x'')])
   \<and> valid_item (PDict [(''headline'', PStr ''A''), (''url'', PStr ''https://x'')])
   \<and> subseq (filter valid_item items) items
   \<and> length (fst (news_cards env (take 5 news))) \<le> 5
   \<and> prefix (fst (news_cards env (take 5 news)))
        (concat (map (\<lambda>a. fst (news_card env a)) (take 5 news)))
   \<and> (list_all (\<lambda>a. snd (news_card env a) = Inr ()) (take 5 news) \<longrightarrow>
        fst (news_cards env (take 5 news)) = concat (map (\<lambda>a. fst (news_card env a)) (take 5 news)))
   \<and> (finnhub_api cfg \<noteq> [] \<and> snd (get_company_news env ticker (finnhub_api cfg)) = Inr news
       \<and> news \<noteq> [] \<longrightarrow>
        fst (news_section env cfg ticker) =
          Subheader (news_heading ticker) # fst (news_cards env (take 5 news))
          @ (if snd (news_cards env (take 5 news)) = Inr () then [Html news_rule] else []))"
proof -
  have fetched: "key \<noteq> [] \<and> requests_get env (news_request env symbol key) = Inr response
       \<and> status_code response = 200 \<and> json_body response = Inr (PList items)
       \<and> list_all is_dict items \<longrightarrow>
        snd (get_company_news env symbol key) = Inr (filter valid_item items)"
    by (simp add: get_company_news_def news_filter_def keep_items_dicts)
  have strings: "map_of kvs ''headline'' = Some (PStr h) \<and> map_of kvs ''url'' = Some (PStr u) \<longrightarrow>
        valid_item (PDict kvs) = (h \<noteq> [] \<and> u \<noteq> [])"
    by (simp add: field_def)
  have absent: "map_of kvs ''headline'' = None \<or> map_of kvs ''url'' = None \<longrightarrow> \<not> valid_item (PDict kvs)"
    by (auto simp add: field_def)
  have examples: "\<not> valid_item (PDict [(''headline'', PStr []), (''url'', PStr ''https://x'')])
     \<and> valid_item (PDict [(''headline'', PStr ''A''), (''url'', PStr ''https://x'')])"
    by (simp add: field_def)
  have cap: "length (fst (news_cards env (take 5 news))) \<le> 5"
    using news_cards_length [of env "take 5 news"] by simp
  have all: "list_all (\<lambda>a. snd (news_card env a) = Inr ()) (take 5 news) \<longrightarrow>
        fst (news_cards env (take 5 news)) = concat (map (\<lambda>a. fst (news_card env a)) (take 5 news))"
    by (simp add: news_cards_all)
  from fetched strings absent examples cap all show ?thesis
    using keep_items_dicts [of items] news_cards_prefix [of env "take 5 news"]
      news_section_with_news [of cfg env ticker news]
    by (simp only: subseq_filter_left simp_thms) blast
qed

text \<open>
  The two items of the claim as the provider's answer in the example world, and a list
  of seven valid items, of which five are shown.
\<close>

theorem news_filter_and_cap_witness:
  "requests_get demo_env (news_request demo_env ''OK'' ''k'')
     = Inr \<lparr>status_code = 200, json_body = Inr demo_news\<rparr>
   \<and> snd (get_company_news demo_env ''OK'' ''k'')
       = Inr [PDict [(''headline'', PStr ''A''), (''url'', PStr ''https://x'')]]
   \<and> list_all (\<lambda>a. snd (news_card demo_env a) = Inr ())
        (take 5 (replicate 7 (PDict [(''headline'', PStr ''A''), (''url'', PStr ''https://x'')])))
   \<and> fst (news_cards demo_env
             (take 5 (replicate 7 (PDict [(''headline'', PStr ''A''), (''url'', PStr ''https://x'')]))))
       = replicate 5 (Html (card_html ''https://x'' ''A'' ''Unknown'' ''Jan 01, 1970''))
   \<and> fst (news_section demo_env (demo_cfg\<lparr>finnhub_api := ''k''\<rparr>) ''OK'')
       = [Subheader (news_heading ''OK''),
          Html (card_html ''https://x'' ''A'' ''Unknown'' ''Jan 01, 1970''),
          Html news_rule]"
proof -
  let ?a = "PDict [(''headline'', PStr ''A''), (''url'', PStr ''https://x'')]"
  let ?items = "[PDict [(''headline'', PStr []), (''url'', PStr ''https://x'')], ?a]"
  let ?cfg = "demo_cfg\<lparr>finnhub_api := ''k''\<rparr>"
  note inst = news_filter_and_cap
    [where items = ?items and key = "''k''" and env = demo_env and symbol = "''OK''"
       and response = "\<lparr>status_code = 200, json_body = Inr demo_news\<rparr>"
       and kvs = "[]" and h = "[]" and u = "[]" and cfg = ?cfg and ticker = "''OK''"]
  have req: "requests_get demo_env (news_request demo_env ''OK'' ''k'')
     = Inr \<lparr>status_code = 200, json_body = Inr demo_news\<rparr>"
    by (simp add: demo_env_def news_request_def)
  have dicts: "list_all is_dict ?items" by simp
  have body: "json_body \<lparr>status_code = 200, json_body = Inr demo_news\<rparr> = Inr (PList ?items)"
    by (simp add: demo_news_def)
  have kept: "filter valid_item ?items = [?a]"
    by (simp add: field_def)
  have got: "snd (get_company_news demo_env ''OK'' ''k'') = Inr [?a]"
    using req dicts body kept inst [where news = "[]"] by simp
  have card: "news_card demo_env ?a
                = ([Html (card_html ''https://x'' ''A'' ''Unknown'' ''Jan 01, 1970'')], Inr ())"
    by (simp add: news_card_def io_defs demo_env_def)
  have ok: "list_all (\<lambda>a. snd (news_card demo_env a) = Inr ()) (take 5 (replicate 7 ?a))"
    by (simp add: card list_all_iff)
  have five: "fst (news_cards demo_env (take 5 (replicate 7 ?a)))
                = replicate 5 (Html (card_html ''https://x'' ''A'' ''Unknown'' ''Jan 01, 1970''))"
    using ok inst [where news = "replicate 7 ?a"]
    by (simp add: card numeral_eq_Suc)
  have one: "news_cards demo_env [?a]
                = ([Html (card_html ''https://x'' ''A'' ''Unknown'' ''Jan 01, 1970'')], Inr ())"
    by (simp add: card io_defs)
  have whole: "fst (news_section demo_env ?cfg ''OK'')
       = [Subheader (news_heading ''OK''),
          Html (card_html ''https://x'' ''A'' ''Unknown'' ''Jan 01, 1970''),
          Html news_rule]"
    using got one inst [where news = "[?a]"] by (simp add: demo_cfg_def)
  from req got ok five whole show ?thesis by blast
qed

section \<open>The refresh scheduler\<close>

text \<open>
  C9. With a \<open>last_refresh\<close> in the session state, the check requests a rerun exactly
  when the time read minus \<open>last_refresh\<close> is strictly greater than the refresh
  interval; \<open>last_refresh\<close> then becomes the time of the reset (the clock is read a
  second time for it) and the run ends in a rerun without processing any ticker;
  otherwise \<open>last_refresh\<close> keeps its value and the tickers are processed. With an
  interval of 60, an elapsed time of 61 triggers the rerun and the reset, 59 and 60
  trigger neither.
\<close>

theorem refresh_scheduler:
  "snd (refresh_check (Some t) rate now now') = (now - t > of_int rate)
   \<and> fst (refresh_check (Some t) rate now now') = Some (if now - t > of_int rate then now' else t)
   \<and> (run_app env cfg tickers rate (Some t) now now' = (Some now', None)) = (now - t > of_int rate)
   \<and> (run_app env cfg tickers rate (Some t) now now' = (Some t, Some (ticker_loop env cfg tickers)))
       = (\<not> now - t > of_int rate)
   \<and> refresh_check (Some t) 60 (t + 61) now' = (Some now', True)
   \<and> refresh_check (Some t) 60 (t + 59) now' = (Some t, False)
   \<and> refresh_check (Some t) 60 (t + 60) now' = (Some t, False)"
  by (simp add: refresh_check_def run_app_def)

text \<open>The two elapsed times of the claim, 61 and 59 seconds after a refresh at 1000.\<close>

theorem refresh_scheduler_witness:
  "refresh_check (Some 1000) 60 1061 1062 = (Some 1062, True)
   \<and> refresh_check (Some 1000) 60 1059 1062 = (Some 1000, False)
   \<and> run_app demo_env demo_cfg [''NODATA''] 60 (Some 1000) 1061 1062 = (Some 1062, None)
   \<and> run_app demo_env demo_cfg [''NODATA''] 60 (Some 1000) 1059 1062
       = (Some 1000, Some [Warning ''No data available for NODATA''])"
proof -
  have l: "ticker_loop demo_env demo_cfg [''NODATA''] = [Warning ''No data available for NODATA'']"
    by code_simp
  have a: "refresh_check (Some 1000) 60 1061 1062 = (Some 1062, True)"
    using refresh_scheduler [where t = 1000 and now' = 1062] by simp
  have b: "refresh_check (Some 1000) 60 1059 1062 = (Some 1000, False)"
    using refresh_scheduler [where t = 1000 and now' = 1062] by simp
  have c: "run_app demo_env demo_cfg [''NODATA''] 60 (Some 1000) 1061 1062 = (Some 1062, None)"
    using refresh_scheduler [where t = 1000 and now' = 1062 and now = 1061 and rate = 60
        and env = demo_env and cfg = demo_cfg and tickers = "[''NODATA'']"]
    by simp
  have d: "run_app demo_env demo_cfg [''NODATA''] 60 (Some 1000) 1059 1062
       = (Some 1000, Some [Warning ''No data available for NODATA''])"
    using l refresh_scheduler [where t = 1000 and now' = 1062 and now = 1059 and rate = 60
        and env = demo_env and cfg = demo_cfg and tickers = "[''NODATA'']"]
    by simp
  from a b c d show ?thesis by blast
qed

end
